theory Spec2Isabelle
  imports Main
begin

section \<open>Values of the host language\<close>

text \<open>
  The wrapper reads three fields of the override bag through \<^verbatim>\<open>(props as any)\<close> and tests
  them for truthiness only, so these fields are modelled as untyped JavaScript values.
  Numbers are restricted to the integers and \<^verbatim>\<open>NaN\<close>; an object is represented by a name.
\<close>

datatype js_value =
    JUndefined
  | JNull
  | JBoolean bool
  | JNumber int
  | JNaN
  | JString string
  | JObject string

fun truthy :: "js_value \<Rightarrow> bool" where
  "truthy JUndefined = False"
| "truthy JNull = False"
| "truthy (JBoolean b) = b"
| "truthy (JNumber n) = (n \<noteq> 0)"
| "truthy JNaN = False"
| "truthy (JString s) = (s \<noteq> [])"
| "truthy (JObject h) = True"

text \<open>
  \<^verbatim>\<open>throw new Error(msg)\<close> is the value \<open>Inl (Error msg)\<close>. Reading a property of
  \<^verbatim>\<open>undefined\<close> raises a \<^verbatim>\<open>TypeError\<close>.
\<close>

datatype error = Error string | TypeError string

section \<open>Types of the provisioning library\<close>

text \<open>
  The enumerations below are excerpts of the library's: they hold the members that
  \<^verbatim>\<open>RDSInstance.ts\<close> and \<^verbatim>\<open>sst.config.ts\<close> name and a few of their siblings.
\<close>

datatype mysql_engine_version = VER_5_7 | VER_8_0

datatype postgres_engine_version = VER_11_13 | VER_12_5

text \<open>\<^verbatim>\<open>rds.DatabaseInstanceEngine.mysql({version})\<close> and \<^verbatim>\<open>.postgres({version})\<close>.\<close>

datatype instance_engine =
    mysql mysql_engine_version
  | postgres postgres_engine_version

datatype subnet_type = PRIVATE_ISOLATED | PRIVATE_WITH_EGRESS | PUBLIC

record subnet_selection =
  subnetType :: "subnet_type option"
  subnetGroupName :: "string option"

datatype instance_class = BURSTABLE2 | BURSTABLE3 | STANDARD5

datatype instance_size = MICRO | SMALL | MEDIUM | LARGE

text \<open>\<^verbatim>\<open>ec2.InstanceType.of(class, size)\<close>.\<close>

datatype instance_type = InstanceType_of instance_class instance_size

record vpc_props =
  natGateways :: "nat option"

text \<open>
  A network is either a construct made by \<^verbatim>\<open>new ec2.Vpc(scope, id, props)\<close>, kept as its
  id and properties, or any other \<^verbatim>\<open>ec2.IVpc\<close> handle, kept as a name.
\<close>

datatype ivpc = Vpc string vpc_props | ImportedVpc string

record secret =
  secretArn :: string
  secretFullArn :: "string option"

record credentials =
  username :: string
  credentials_secret :: "secret option"
  password :: "string option"

text \<open>The attributes of an \<^verbatim>\<open>rds.DatabaseInstance\<close> handle that the wrapper reads.\<close>

record database_instance =
  instanceArn :: string
  instanceIdentifier :: string
  instanceEndpoint_hostname :: string
  instance_secret :: "secret option"

text \<open>
  The properties the wrapper hands to \<^verbatim>\<open>new rds.DatabaseInstance\<close>. A field is \<open>None\<close> when
  the object has no such key. \<open>p_rest\<close> holds the keys of the override bag that the wrapper
  copies without looking at them.
\<close>

record database_instance_props =
  p_instanceIdentifier :: "string option"
  p_engine :: instance_engine
  p_vpc :: ivpc
  p_vpcSubnets :: "subnet_selection option"
  p_instanceType :: "instance_type option"
  p_databaseName :: string
  p_credentials :: "credentials option"
  p_rest :: "(string \<times> js_value) list"

section \<open>The wrapper's configuration\<close>

text \<open>
  \<^verbatim>\<open>RDSCdkDatabaseInstanceProps\<close>, the override bag. The fields \<open>ip_engine\<close>, \<open>ip_vpc\<close>
  and \<open>ip_databaseName\<close> are the ones read through \<^verbatim>\<open>(props as any)\<close>.
\<close>

record RDSCdkDatabaseInstanceProps =
  ip_engine :: js_value
  ip_vpc :: js_value
  ip_databaseName :: js_value
  ip_credentials :: "credentials option"
  ip_vpcSubnets :: "subnet_selection option"
  ip_instanceType :: "instance_type option"
  ip_instanceIdentifier :: "string option"
  ip_rest :: "(string \<times> js_value) list"

text \<open>The empty object \<^verbatim>\<open>{}\<close> read as an override bag.\<close>

definition empty_instance_props :: RDSCdkDatabaseInstanceProps where
  "empty_instance_props =
     \<lparr> ip_engine = JUndefined, ip_vpc = JUndefined, ip_databaseName = JUndefined,
       ip_credentials = None, ip_vpcSubnets = None, ip_instanceType = None,
       ip_instanceIdentifier = None, ip_rest = [] \<rparr>"

text \<open>\<^verbatim>\<open>cdk.instance\<close> is \<^verbatim>\<open>rds.IDatabaseInstance | RDSCdkDatabaseInstanceProps\<close>.\<close>

datatype cdk_instance_prop =
    IDatabaseInstance database_instance
  | InstanceProps RDSCdkDatabaseInstanceProps

record cdk_props =
  cdk_id :: "string option"
  cdk_instance :: "cdk_instance_prop option"
  cdk_secret :: "secret option"

record RDSInstanceProps =
  vpc :: "ivpc option"
  databaseName :: string
  engine :: string
  cdk :: "cdk_props option"

text \<open>
  \<^verbatim>\<open>isCDKConstruct\<close> belongs to the framework: it tells a construct from a plain object.
  Here the two are the two constructors of \<open>cdk_instance_prop\<close>.
\<close>

fun isCDKConstruct :: "cdk_instance_prop option \<Rightarrow> bool" where
  "isCDKConstruct (Some (IDatabaseInstance h)) = True"
| "isCDKConstruct (Some (InstanceProps b)) = False"
| "isCDKConstruct None = False"

section \<open>The environment of a construction\<close>

text \<open>
  What the wrapper calls and does not define: \<^verbatim>\<open>App.logicalPrefixedName\<close>, the id that the
  \<^verbatim>\<open>Construct\<close> base class keeps in \<^verbatim>\<open>this.node.id\<close> for the id given to \<^verbatim>\<open>super\<close>, and the
  handle that \<^verbatim>\<open>new rds.DatabaseInstance(this, id, props)\<close> returns (given the node id of
  \<^verbatim>\<open>this\<close>, the id and the properties).
\<close>

record environment =
  logicalPrefixedName :: "string \<Rightarrow> string"
  node_id_of :: "string \<Rightarrow> string"
  new_DatabaseInstance :: "string \<Rightarrow> string \<Rightarrow> database_instance_props \<Rightarrow> database_instance"

text \<open>The constructs registered under \<^verbatim>\<open>this\<close>, in the order of their creation.\<close>

datatype construct_child =
    Child_Vpc string vpc_props
  | Child_DatabaseInstance string database_instance_props

section \<open>The wrapper\<close>

record RDSInstance =
  this_id :: string
  this_node_id :: string
  this_cdk_instance :: database_instance
  this_props :: RDSInstanceProps
  this_secret :: "secret option"

text \<open>\<^verbatim>\<open>(cdk?.instance || {}) as RDSCdkDatabaseInstanceProps\<close>. The constructor reaches this
  expression only when \<^verbatim>\<open>cdk.instance\<close> is not a construct; for a construct the model
  gives the empty bag.\<close>

definition instance_props_of :: "RDSInstanceProps \<Rightarrow> RDSCdkDatabaseInstanceProps" where
  "instance_props_of props =
     (case cdk props of
        None \<Rightarrow> empty_instance_props
      | Some c \<Rightarrow>
          (case cdk_instance c of
             Some (InstanceProps b) \<Rightarrow> b
           | Some (IDatabaseInstance h) \<Rightarrow> empty_instance_props
           | None \<Rightarrow> empty_instance_props))"

definition validateCDKPropWhenIsConstruct :: "string \<Rightarrow> RDSInstanceProps \<Rightarrow> error + unit" where
  \<open>validateCDKPropWhenIsConstruct node_id props =
     (case cdk props of
        None \<Rightarrow>
          Inl (Error (''Missing "cdk.secret" in the "'' @ node_id @
            ''" RDS. You must provide a secret to import an existing RDS Serverless Instance.''))
      | Some c \<Rightarrow>
          (case cdk_secret c of
             None \<Rightarrow>
               Inl (Error (''Missing "cdk.secret" in the "'' @ node_id @
                 ''" RDS. You must provide a secret to import an existing RDS Serverless Instance.''))
           | Some s \<Rightarrow> Inr ()))\<close>

definition validateCDKPropWhenIsInstanceProps ::
    "RDSInstanceProps \<Rightarrow> error + RDSCdkDatabaseInstanceProps" where
  \<open>validateCDKPropWhenIsInstanceProps props =
     (let b = instance_props_of props in
      if truthy (ip_engine b) then
        Inl (Error ''Use "engine" instead of "cdk.instance.engine" to configure the RDS database engine.'')
      else if truthy (ip_vpc b) then
        Inl (Error ''Use "vpc" instead of "cdk.instance.vpc" to configure the RDS database vpc.'')
      else if truthy (ip_databaseName b) then
        Inl (Error ''Use "databaseName" instead of "cdk.instance.databaseName" to configure the RDS database engine.'')
      else
        (case ip_credentials b of
           None \<Rightarrow> Inr b
         | Some c \<Rightarrow>
             (case credentials_secret c of
                None \<Rightarrow>
                  Inl (Error ''Only credentials managed by SecretManager are supported for the "cdk.instance.credentials".'')
              | Some s \<Rightarrow> Inr b)))\<close>

text \<open>\<^verbatim>\<open>cdk!.instance as rds.DatabaseInstance\<close>. Neither the assertion nor the cast is
  checked when the program runs. The constructor calls \<open>importInstance\<close> only after
  \<open>isCDKConstruct\<close> has recognised \<^verbatim>\<open>cdk.instance\<close>, so the last two cases are never
  reached from it; the model makes them errors.\<close>

definition importInstance :: "RDSInstanceProps \<Rightarrow> error + database_instance" where
  "importInstance props =
     (case cdk props of
        None \<Rightarrow> Inl (TypeError ''Cannot read properties of undefined'')
      | Some c \<Rightarrow>
          (case cdk_instance c of
             Some (IDatabaseInstance h) \<Rightarrow> Inr h
           | Some (InstanceProps b) \<Rightarrow> Inl (TypeError ''cdk.instance is not a construct'')
           | None \<Rightarrow> Inl (TypeError ''cdk.instance is not a construct'')))"

definition getEngine :: "string \<Rightarrow> error + instance_engine" where
  \<open>getEngine e =
     (if e = ''mysql5.7'' then Inr (mysql VER_5_7)
      else if e = ''postgresql11.13'' then Inr (postgres VER_11_13)
      else Inl (Error ''The specified "engine" is not supported for sst.RDS. Only mysql5.6, mysql5.7, postgresql10.14, and postgresql11.13 engines are currently supported.''))\<close>

definition getVpc :: "ivpc option \<Rightarrow> construct_child list \<Rightarrow> ivpc \<times> construct_child list" where
  "getVpc v children =
     (case v of
        Some n \<Rightarrow> (n, children)
      | None \<Rightarrow>
          (Vpc ''vpc'' \<lparr> natGateways = Some 0 \<rparr>,
           children @ [Child_Vpc ''vpc'' \<lparr> natGateways = Some 0 \<rparr>]))"

definition getVpcSubnets :: "RDSCdkDatabaseInstanceProps \<Rightarrow> subnet_selection option" where
  "getVpcSubnets b =
     (if truthy (ip_vpc b) then ip_vpcSubnets b
      else Some \<lparr> subnetType = Some PRIVATE_ISOLATED, subnetGroupName = None \<rparr>)"

definition getInstanceType :: "RDSCdkDatabaseInstanceProps \<Rightarrow> instance_type option" where
  "getInstanceType b =
     (case ip_instanceType b of
        Some t \<Rightarrow> Some t
      | None \<Rightarrow> Some (InstanceType_of BURSTABLE3 SMALL))"

text \<open>
  The object literal of \<^verbatim>\<open>createInstance\<close> is evaluated from left to right: the default
  identifier, the spread of the override bag (whose \<^verbatim>\<open>instanceIdentifier\<close>, when the bag
  has the key, replaces the default), then \<open>getEngine\<close>, which may throw before any
  construct is made, then \<open>getVpc\<close>, \<open>getVpcSubnets\<close> and \<open>getInstanceType\<close>, whose keys
  replace those of the bag.
\<close>

definition createInstance ::
    "environment \<Rightarrow> string \<Rightarrow> RDSInstanceProps \<Rightarrow> construct_child list \<Rightarrow>
     (error + database_instance) \<times> construct_child list" where
  "createInstance env node_id props children =
     (let b = instance_props_of props;
          ident = logicalPrefixedName env node_id
      in case getEngine (if engine props \<noteq> [] then engine props else ''mysql5.7'') of
           Inl e \<Rightarrow> (Inl e, children)
         | Inr eng \<Rightarrow>
             (case getVpc (vpc props) children of
                (v, children') \<Rightarrow>
                  (let p = \<lparr> p_instanceIdentifier =
                               (case ip_instanceIdentifier b of Some s \<Rightarrow> Some s | None \<Rightarrow> Some ident),
                             p_engine = eng,
                             p_vpc = v,
                             p_vpcSubnets = getVpcSubnets b,
                             p_instanceType = getInstanceType b,
                             p_databaseName = databaseName props,
                             p_credentials = ip_credentials b,
                             p_rest = ip_rest b \<rparr>
                   in (Inr (new_DatabaseInstance env node_id ''DB'' p),
                       children' @ [Child_DatabaseInstance ''DB'' p]))))"

text \<open>
  The constructor. Its result is the wrapper or the error thrown, together with the
  constructs that were registered under the wrapper by then. \<^verbatim>\<open>props.cdk?.id || id\<close> is
  the id given to the base class.
\<close>

definition super_id :: "string \<Rightarrow> RDSInstanceProps \<Rightarrow> string" where
  "super_id ident props =
     (case cdk props of
        None \<Rightarrow> ident
      | Some c \<Rightarrow>
          (case cdk_id c of
             None \<Rightarrow> ident
           | Some i \<Rightarrow> if i \<noteq> [] then i else ident))"

text \<open>The condition of the constructor's branch: \<^verbatim>\<open>cdk && isCDKConstruct(cdk.instance)\<close>.\<close>

definition imports_existing :: "RDSInstanceProps \<Rightarrow> bool" where
  "imports_existing props =
     (case cdk props of None \<Rightarrow> False | Some c \<Rightarrow> isCDKConstruct (cdk_instance c))"

text \<open>\<^verbatim>\<open>cdk.secret!\<close> in the first branch, where \<^verbatim>\<open>cdk\<close> is known to be present.\<close>

definition cdk_secret_of :: "RDSInstanceProps \<Rightarrow> secret option" where
  "cdk_secret_of props = (case cdk props of None \<Rightarrow> None | Some c \<Rightarrow> cdk_secret c)"

definition construct ::
    "environment \<Rightarrow> string \<Rightarrow> RDSInstanceProps \<Rightarrow> (error + RDSInstance) \<times> construct_child list" where
  "construct env ident props =
     (let node_id = node_id_of env (super_id ident props) in
      if imports_existing props then
        (case validateCDKPropWhenIsConstruct node_id props of
           Inl e \<Rightarrow> (Inl e, [])
         | Inr u \<Rightarrow>
             (case importInstance props of
                Inl e \<Rightarrow> (Inl e, [])
              | Inr h \<Rightarrow>
                  (Inr \<lparr> this_id = ident, this_node_id = node_id,
                         this_cdk_instance = h, this_props = props,
                         this_secret = cdk_secret_of props \<rparr>, [])))
      else
        (case validateCDKPropWhenIsInstanceProps props of
           Inl e \<Rightarrow> (Inl e, [])
         | Inr b \<Rightarrow>
             (case createInstance env node_id props [] of
                (Inl e, children) \<Rightarrow> (Inl e, children)
              | (Inr i, children) \<Rightarrow>
                  (Inr \<lparr> this_id = ident, this_node_id = node_id,
                         this_cdk_instance = i, this_props = props,
                         this_secret = instance_secret i \<rparr>, children))))"

section \<open>Accessors and the binding descriptor\<close>

text \<open>The getter \<^verbatim>\<open>secretArn\<close> reads \<^verbatim>\<open>this.secret.secretArn\<close>; the field \<^verbatim>\<open>secret\<close> was
  assigned under a non-null assertion that the compiler does not check.\<close>

definition get_secretArn :: "RDSInstance \<Rightarrow> error + string" where
  "get_secretArn w =
     (case this_secret w of
        None \<Rightarrow> Inl (TypeError ''Cannot read properties of undefined'')
      | Some s \<Rightarrow> Inr (secretArn s))"

definition get_instanceArn :: "RDSInstance \<Rightarrow> string" where
  "get_instanceArn w = instanceArn (this_cdk_instance w)"

definition get_instanceIdentifier :: "RDSInstance \<Rightarrow> string" where
  "get_instanceIdentifier w = instanceIdentifier (this_cdk_instance w)"

definition get_instanceEndpoint :: "RDSInstance \<Rightarrow> string" where
  "get_instanceEndpoint w = instanceEndpoint_hostname (this_cdk_instance w)"

definition get_databaseName :: "RDSInstance \<Rightarrow> string" where
  "get_databaseName w = databaseName (this_props w)"

record binding_variable =
  var_type :: string
  var_value :: string

text \<open>\<^verbatim>\<open>FunctionBindingProps\<close>: the two objects are kept as lists of key and value, in the
  order of the source.\<close>

record FunctionBindingProps =
  clientPackage :: string
  variables :: "(string \<times> binding_variable) list"
  permissions :: "(string \<times> string list) list"

text \<open>\<^verbatim>\<open>this.secret.secretFullArn || `${this.secret.secretArn}*`\<close>: an absent or empty full
  ARN is falsy.\<close>

definition secret_resource :: "secret \<Rightarrow> string" where
  "secret_resource s =
     (case secretFullArn s of
        None \<Rightarrow> secretArn s @ ''*''
      | Some f \<Rightarrow> if f \<noteq> [] then f else secretArn s @ ''*'')"

definition getFunctionBinding :: "RDSInstance \<Rightarrow> error + FunctionBindingProps" where
  "getFunctionBinding w =
     (case get_secretArn w of
        Inl e \<Rightarrow> Inl e
      | Inr arn \<Rightarrow>
          (case this_secret w of
             None \<Rightarrow> Inl (TypeError ''Cannot read properties of undefined'')
           | Some s \<Rightarrow>
               Inr \<lparr> clientPackage = ''rds'',
                     variables =
                       [(''instanceArn'', \<lparr> var_type = ''plain'', var_value = get_instanceArn w \<rparr>),
                        (''secretArn'', \<lparr> var_type = ''plain'', var_value = arn \<rparr>),
                        (''databaseName'', \<lparr> var_type = ''plain'', var_value = get_databaseName w \<rparr>)],
                     permissions =
                       [(''rds-data:*'', [get_instanceArn w]),
                        (''secretsmanager:GetSecretValue'', [secret_resource s]),
                        (''secretsmanager:DescribeSecret'', [secret_resource s])] \<rparr>))"

section \<open>Notions used in the statements\<close>

text \<open>The properties of the database instances among the registered constructs, and the
  properties of the networks among them.\<close>

fun database_instances :: "construct_child list \<Rightarrow> database_instance_props list" where
  "database_instances [] = []"
| "database_instances (Child_DatabaseInstance i p # cs) = p # database_instances cs"
| "database_instances (Child_Vpc i p # cs) = database_instances cs"

fun networks :: "construct_child list \<Rightarrow> vpc_props list" where
  "networks [] = []"
| "networks (Child_Vpc i p # cs) = p # networks cs"
| "networks (Child_DatabaseInstance i p # cs) = networks cs"

definition isolated_private :: subnet_selection where
  "isolated_private = \<lparr> subnetType = Some PRIVATE_ISOLATED, subnetGroupName = None \<rparr>"

section \<open>Concrete configurations\<close>

text \<open>An environment in the manner of the framework: the prefix is the stage and the name
  of the application, node ids are kept as given, and every created instance carries a
  generated secret.\<close>

definition example_env :: environment where
  "example_env =
     \<lparr> logicalPrefixedName = (\<lambda>n. ''dev-sst-t3-example-'' @ n),
       node_id_of = (\<lambda>i. i),
       new_DatabaseInstance = (\<lambda>scope i p.
         \<lparr> instanceArn = ''arn:aws:rds:us-east-1:1:db:'' @ scope @ ''/'' @ i,
           instanceIdentifier = (case p_instanceIdentifier p of Some s \<Rightarrow> s | None \<Rightarrow> i),
           instanceEndpoint_hostname = ''db.internal'',
           instance_secret =
             (case p_credentials p of
                None \<Rightarrow> Some \<lparr> secretArn = ''arn:aws:secretsmanager:us-east-1:1:secret:gen-AbCdEf'',
                               secretFullArn =
                                 Some ''arn:aws:secretsmanager:us-east-1:1:secret:gen-AbCdEf'' \<rparr>
              | Some c \<Rightarrow> credentials_secret c) \<rparr>) \<rparr>"

text \<open>The configuration \<^verbatim>\<open>{databaseName: "db1", engine: "mysql5.7"}\<close>.\<close>

definition config_db1 :: RDSInstanceProps where
  "config_db1 = \<lparr> vpc = None, databaseName = ''db1'', engine = ''mysql5.7'', cdk = None \<rparr>"

text \<open>The network of \<^verbatim>\<open>sst.config.ts\<close>.\<close>

definition site_vpc :: ivpc where
  "site_vpc = Vpc ''dev-sst-t3-example-net'' \<lparr> natGateways = Some 1 \<rparr>"

definition example_secret :: secret where
  "example_secret =
     \<lparr> secretArn = ''arn:aws:secretsmanager:us-east-1:123456789012:secret:my-secret'',
       secretFullArn = None \<rparr>"

definition example_instance :: database_instance where
  "example_instance =
     \<lparr> instanceArn = ''arn:aws:rds:us-east-1:123456789012:db:my-instance'',
       instanceIdentifier = ''my-instance'',
       instanceEndpoint_hostname = ''my-instance.rds.amazonaws.com'',
       instance_secret = None \<rparr>"

text \<open>A configuration with the given override bag, a top-level network or none, and the
  engine string \<open>e\<close>.\<close>

definition config_with :: "ivpc option \<Rightarrow> string \<Rightarrow> RDSCdkDatabaseInstanceProps \<Rightarrow> RDSInstanceProps" where
  "config_with v e b =
     \<lparr> vpc = v, databaseName = ''db1'', engine = e,
       cdk = Some \<lparr> cdk_id = None, cdk_instance = Some (InstanceProps b), cdk_secret = None \<rparr> \<rparr>"

text \<open>A configuration that imports \<open>example_instance\<close>, with the given secret or none.\<close>

definition config_import :: "secret option \<Rightarrow> RDSInstanceProps" where
  "config_import s =
     \<lparr> vpc = None, databaseName = ''db1'', engine = ''mysql5.7'',
       cdk = Some \<lparr> cdk_id = None, cdk_instance = Some (IDatabaseInstance example_instance),
                    cdk_secret = s \<rparr> \<rparr>"

text \<open>Override bags: an instance type, and credentials with a password or with a managed
  secret.\<close>

definition large_bag :: RDSCdkDatabaseInstanceProps where
  "large_bag = empty_instance_props \<lparr> ip_instanceType := Some (InstanceType_of STANDARD5 LARGE) \<rparr>"

definition password_bag :: RDSCdkDatabaseInstanceProps where
  "password_bag =
     empty_instance_props
       \<lparr> ip_credentials :=
           Some \<lparr> username = ''admin'', credentials_secret = None, password = Some ''pw'' \<rparr> \<rparr>"

definition secret_bag :: RDSCdkDatabaseInstanceProps where
  "secret_bag =
     empty_instance_props
       \<lparr> ip_credentials :=
           Some \<lparr> username = ''admin'', credentials_secret = Some example_secret,
                  password = None \<rparr> \<rparr>"

section \<open>The two paths of the constructor\<close>

lemma construct_create_path:
  assumes "\<not> imports_existing props"
  shows "construct env ident props =
     (case validateCDKPropWhenIsInstanceProps props of
        Inl e \<Rightarrow> (Inl e, [])
      | Inr b \<Rightarrow>
          (case createInstance env (node_id_of env (super_id ident props)) props [] of
             (Inl e, children) \<Rightarrow> (Inl e, children)
           | (Inr i, children) \<Rightarrow>
               (Inr \<lparr> this_id = ident, this_node_id = node_id_of env (super_id ident props),
                      this_cdk_instance = i, this_props = props,
                      this_secret = instance_secret i \<rparr>, children)))"
  using assms by (simp add: construct_def Let_def)

lemma construct_import_path:
  assumes "cdk props = Some c" and "cdk_instance c = Some (IDatabaseInstance h)"
  shows "construct env ident props =
     (case validateCDKPropWhenIsConstruct (node_id_of env (super_id ident props)) props of
        Inl e \<Rightarrow> (Inl e, [])
      | Inr u \<Rightarrow>
          (Inr \<lparr> this_id = ident, this_node_id = node_id_of env (super_id ident props),
                 this_cdk_instance = h, this_props = props,
                 this_secret = cdk_secret c \<rparr>, []))"
  using assms
  by (simp add: construct_def Let_def importInstance_def imports_existing_def
        cdk_secret_of_def split: sum.splits)

lemma bag_create_path:
  assumes "cdk props = Some c" and "cdk_instance c = Some (InstanceProps b)"
  shows "\<not> imports_existing props" and "instance_props_of props = b"
  using assms by (simp_all add: imports_existing_def instance_props_of_def)

section \<open>A successful construction on the create-new path\<close>

lemma validate_ok_iff:
  "validateCDKPropWhenIsInstanceProps props = Inr b \<longleftrightarrow>
     b = instance_props_of props \<and>
     \<not> truthy (ip_engine b) \<and> \<not> truthy (ip_vpc b) \<and> \<not> truthy (ip_databaseName b) \<and>
     (case ip_credentials b of None \<Rightarrow> True | Some c \<Rightarrow> credentials_secret c \<noteq> None)"
  by (auto simp: validateCDKPropWhenIsInstanceProps_def Let_def split: option.splits)

lemma createInstance_result:
  "createInstance env nid props [] =
     (case getEngine (if engine props \<noteq> [] then engine props else ''mysql5.7'') of
        Inl e \<Rightarrow> (Inl e, [])
      | Inr eng \<Rightarrow>
          (Inr (new_DatabaseInstance env nid ''DB''
                 \<lparr> p_instanceIdentifier =
                     (case ip_instanceIdentifier (instance_props_of props) of
                        Some s \<Rightarrow> Some s | None \<Rightarrow> Some (logicalPrefixedName env nid)),
                   p_engine = eng,
                   p_vpc = (case vpc props of Some v \<Rightarrow> v
                            | None \<Rightarrow> Vpc ''vpc'' \<lparr> natGateways = Some 0 \<rparr>),
                   p_vpcSubnets = getVpcSubnets (instance_props_of props),
                   p_instanceType = getInstanceType (instance_props_of props),
                   p_databaseName = databaseName props,
                   p_credentials = ip_credentials (instance_props_of props),
                   p_rest = ip_rest (instance_props_of props) \<rparr>),
           (case vpc props of Some v \<Rightarrow> []
            | None \<Rightarrow> [Child_Vpc ''vpc'' \<lparr> natGateways = Some 0 \<rparr>]) @
           [Child_DatabaseInstance ''DB''
                 \<lparr> p_instanceIdentifier =
                     (case ip_instanceIdentifier (instance_props_of props) of
                        Some s \<Rightarrow> Some s | None \<Rightarrow> Some (logicalPrefixedName env nid)),
                   p_engine = eng,
                   p_vpc = (case vpc props of Some v \<Rightarrow> v
                            | None \<Rightarrow> Vpc ''vpc'' \<lparr> natGateways = Some 0 \<rparr>),
                   p_vpcSubnets = getVpcSubnets (instance_props_of props),
                   p_instanceType = getInstanceType (instance_props_of props),
                   p_databaseName = databaseName props,
                   p_credentials = ip_credentials (instance_props_of props),
                   p_rest = ip_rest (instance_props_of props) \<rparr>]))"
  by (simp add: createInstance_def getVpc_def Let_def split: sum.splits option.splits)

lemma create_path_success:
  assumes "\<not> imports_existing props" and "construct env ident props = (Inr w, children)"
  shows "\<exists>eng p.
      validateCDKPropWhenIsInstanceProps props = Inr (instance_props_of props) \<and>
      getEngine (if engine props \<noteq> [] then engine props else ''mysql5.7'') = Inr eng \<and>
      p_instanceIdentifier p =
        (case ip_instanceIdentifier (instance_props_of props) of
           Some s \<Rightarrow> Some s
         | None \<Rightarrow> Some (logicalPrefixedName env (node_id_of env (super_id ident props)))) \<and>
      p_engine p = eng \<and>
      p_vpc p = (case vpc props of Some v \<Rightarrow> v | None \<Rightarrow> Vpc ''vpc'' \<lparr> natGateways = Some 0 \<rparr>) \<and>
      p_vpcSubnets p = Some isolated_private \<and>
      p_instanceType p = getInstanceType (instance_props_of props) \<and>
      p_databaseName p = databaseName props \<and>
      p_credentials p = ip_credentials (instance_props_of props) \<and>
      children =
        (case vpc props of Some v \<Rightarrow> [] | None \<Rightarrow> [Child_Vpc ''vpc'' \<lparr> natGateways = Some 0 \<rparr>]) @
        [Child_DatabaseInstance ''DB'' p] \<and>
      this_cdk_instance w =
        new_DatabaseInstance env (node_id_of env (super_id ident props)) ''DB'' p \<and>
      this_secret w = instance_secret (this_cdk_instance w) \<and>
      this_props w = props"
proof -
  from assms obtain b where
    v: "validateCDKPropWhenIsInstanceProps props = Inr b"
    by (auto simp: construct_create_path split: sum.splits)
  then have b: "b = instance_props_of props" and nv: "\<not> truthy (ip_vpc (instance_props_of props))"
    by (auto simp: validate_ok_iff)
  from assms v obtain eng where
    e: "getEngine (if engine props \<noteq> [] then engine props else ''mysql5.7'') = Inr eng"
    by (auto simp: construct_create_path createInstance_result split: sum.splits)
  have s: "getVpcSubnets (instance_props_of props) = Some isolated_private"
    using nv by (simp add: getVpcSubnets_def isolated_private_def)
  from assms(2) show ?thesis
    unfolding construct_create_path[OF assms(1)] createInstance_result
    using v b e s by auto
qed

section \<open>Validation of the override bag\<close>

text \<open>
  C1. When \<^verbatim>\<open>cdk.instance\<close> is a property bag with a truthy \<^verbatim>\<open>engine\<close>, \<^verbatim>\<open>vpc\<close> or
  \<^verbatim>\<open>databaseName\<close>, the constructor throws: the message names the first such field, in
  this order, and tells the caller to use the top-level field. No construct has been
  registered under the wrapper by then, so no instance is created.
\<close>

theorem override_conflict_fails:
  assumes "cdk props = Some c" and "cdk_instance c = Some (InstanceProps b)"
  shows \<open>(truthy (ip_engine b) \<longrightarrow>
            construct env ident props =
              (Inl (Error ''Use "engine" instead of "cdk.instance.engine" to configure the RDS database engine.''), []))
       \<and> (\<not> truthy (ip_engine b) \<and> truthy (ip_vpc b) \<longrightarrow>
            construct env ident props =
              (Inl (Error ''Use "vpc" instead of "cdk.instance.vpc" to configure the RDS database vpc.''), []))
       \<and> (\<not> truthy (ip_engine b) \<and> \<not> truthy (ip_vpc b) \<and> truthy (ip_databaseName b) \<longrightarrow>
            construct env ident props =
              (Inl (Error ''Use "databaseName" instead of "cdk.instance.databaseName" to configure the RDS database engine.''), []))\<close>
  using assms
  by (simp add: construct_create_path bag_create_path
        validateCDKPropWhenIsInstanceProps_def Let_def)


text \<open>One bag for each of the three fields.\<close>

theorem override_conflict_fails_witness:
  \<open>construct example_env ''db''
       (config_with None ''mysql5.7'' (empty_instance_props\<lparr>ip_engine := JObject ''mysql''\<rparr>)) =
      (Inl (Error ''Use "engine" instead of "cdk.instance.engine" to configure the RDS database engine.''), [])
   \<and> construct example_env ''db''
       (config_with None ''mysql5.7'' (empty_instance_props\<lparr>ip_vpc := JObject ''net''\<rparr>)) =
      (Inl (Error ''Use "vpc" instead of "cdk.instance.vpc" to configure the RDS database vpc.''), [])
   \<and> construct example_env ''db''
       (config_with None ''mysql5.7'' (empty_instance_props\<lparr>ip_databaseName := JString ''db2''\<rparr>)) =
      (Inl (Error ''Use "databaseName" instead of "cdk.instance.databaseName" to configure the RDS database engine.''), [])\<close>
  using
    override_conflict_fails
      [where props = "config_with None ''mysql5.7'' (empty_instance_props\<lparr>ip_engine := JObject ''mysql''\<rparr>)"
         and b = "empty_instance_props\<lparr>ip_engine := JObject ''mysql''\<rparr>"
         and env = example_env and ident = "''db''"]
    override_conflict_fails
      [where props = "config_with None ''mysql5.7'' (empty_instance_props\<lparr>ip_vpc := JObject ''net''\<rparr>)"
         and b = "empty_instance_props\<lparr>ip_vpc := JObject ''net''\<rparr>"
         and env = example_env and ident = "''db''"]
    override_conflict_fails
      [where props = "config_with None ''mysql5.7'' (empty_instance_props\<lparr>ip_databaseName := JString ''db2''\<rparr>)"
         and b = "empty_instance_props\<lparr>ip_databaseName := JString ''db2''\<rparr>"
         and env = example_env and ident = "''db''"]
  by (simp add: config_with_def empty_instance_props_def)

section \<open>Importing an existing instance\<close>

text \<open>
  C2. When \<^verbatim>\<open>cdk.instance\<close> is a construct and \<^verbatim>\<open>cdk.secret\<close> is absent, the constructor
  throws the error that names the missing \<^verbatim>\<open>cdk.secret\<close>. When \<^verbatim>\<open>cdk.secret\<close> is present,
  the wrapper holds the handle as it was given and its secret is the given secret; nothing
  is created.
\<close>

theorem import_requires_secret:
  assumes "cdk props = Some c" and "cdk_instance c = Some (IDatabaseInstance h)"
  shows \<open>(cdk_secret c = None \<longrightarrow>
            construct env ident props =
              (Inl (Error (''Missing "cdk.secret" in the "'' @ node_id_of env (super_id ident props) @
                 ''" RDS. You must provide a secret to import an existing RDS Serverless Instance.'')), []))
       \<and> (\<forall>s. cdk_secret c = Some s \<longrightarrow>
            (\<exists>w. construct env ident props = (Inr w, []) \<and> this_cdk_instance w = h \<and>
                 this_secret w = Some s \<and> get_secretArn w = Inr (secretArn s)))\<close>
  using assms
  by (simp add: construct_import_path validateCDKPropWhenIsConstruct_def get_secretArn_def)

text \<open>Importing \<open>example_instance\<close> without and with a secret.\<close>

theorem import_requires_secret_witness:
  \<open>construct example_env ''db'' (config_import None) =
      (Inl (Error ''Missing "cdk.secret" in the "db" RDS. You must provide a secret to import an existing RDS Serverless Instance.''), [])
   \<and> (\<exists>w. construct example_env ''db'' (config_import (Some example_secret)) = (Inr w, []) \<and>
          this_cdk_instance w = example_instance \<and> this_secret w = Some example_secret \<and>
          get_secretArn w = Inr (secretArn example_secret))\<close>
  using
    import_requires_secret
      [where props = "config_import None" and h = example_instance
         and env = example_env and ident = "''db''"]
    import_requires_secret
      [where props = "config_import (Some example_secret)" and h = example_instance
         and env = example_env and ident = "''db''"]
  by (simp add: config_import_def example_env_def super_id_def)

section \<open>Engine resolution\<close>

text \<open>
  C3. \<open>getEngine\<close> maps \<^verbatim>\<open>"mysql5.7"\<close> to MySQL at version 5.7 and
  \<^verbatim>\<open>"postgresql11.13"\<close> to PostgreSQL at version 11.13, and throws an error for every
  other string.
\<close>

theorem getEngine_resolution:
  "getEngine ''mysql5.7'' = Inr (mysql VER_5_7)
   \<and> getEngine ''postgresql11.13'' = Inr (postgres VER_11_13)
   \<and> (\<forall>e. e \<noteq> ''mysql5.7'' \<and> e \<noteq> ''postgresql11.13'' \<longrightarrow> (\<exists>m. getEngine e = Inl (Error m)))"
  by (simp add: getEngine_def)

text \<open>Two strings that are not resolved, one of them the empty string.\<close>

theorem getEngine_resolution_witness:
  "getEngine ''mysql5.7'' = Inr (mysql VER_5_7)
   \<and> getEngine ''postgresql11.13'' = Inr (postgres VER_11_13)
   \<and> (\<exists>m. getEngine ''postgresql10.14'' = Inl (Error m))
   \<and> (\<exists>m. getEngine [] = Inl (Error m))"
  using getEngine_resolution by simp

section \<open>Evaluation of concrete configurations\<close>

lemmas construct_defs =
  construct_def createInstance_def validateCDKPropWhenIsInstanceProps_def
  validateCDKPropWhenIsConstruct_def instance_props_of_def getEngine_def getVpc_def
  getVpcSubnets_def getInstanceType_def super_id_def importInstance_def
  imports_existing_def cdk_secret_of_def empty_instance_props_def Let_def

lemma config_with_create_path:
  "\<not> imports_existing (config_with v e b)" "instance_props_of (config_with v e b) = b"
  by (simp_all add: config_with_def imports_existing_def instance_props_of_def)

lemma config_db1_create_path:
  "\<not> imports_existing config_db1" "instance_props_of config_db1 = empty_instance_props"
  by (simp_all add: config_db1_def imports_existing_def instance_props_of_def)

lemma create_path_succeeds:
  assumes "\<not> imports_existing props"
    and "validateCDKPropWhenIsInstanceProps props = Inr b"
    and "getEngine (if engine props \<noteq> [] then engine props else ''mysql5.7'') = Inr eng"
  shows "\<exists>w children. construct env ident props = (Inr w, children)"
  using assms by (simp add: construct_create_path createInstance_result)

section \<open>Credentials of the override bag\<close>

text \<open>
  C8. On the create-new path, when the override bag has \<^verbatim>\<open>credentials\<close> without a
  \<^verbatim>\<open>secret\<close>, the constructor throws an error and nothing is created; when none of the
  three top-level fields is set in the bag, the error is the one about credentials.
  Credentials that carry a secret pass the validation, which then returns the bag.
\<close>

theorem credentials_need_secret:
  assumes "cdk props = Some k" and "cdk_instance k = Some (InstanceProps b)"
    and "ip_credentials b = Some c"
  shows \<open>(credentials_secret c = None \<longrightarrow>
            (\<exists>m. construct env ident props = (Inl (Error m), [])))
       \<and> (credentials_secret c = None \<and>
          \<not> truthy (ip_engine b) \<and> \<not> truthy (ip_vpc b) \<and> \<not> truthy (ip_databaseName b) \<longrightarrow>
            construct env ident props =
              (Inl (Error ''Only credentials managed by SecretManager are supported for the "cdk.instance.credentials".''), []))
       \<and> (\<forall>s. credentials_secret c = Some s \<and>
          \<not> truthy (ip_engine b) \<and> \<not> truthy (ip_vpc b) \<and> \<not> truthy (ip_databaseName b) \<longrightarrow>
            validateCDKPropWhenIsInstanceProps props = Inr b)\<close>
  using assms
  by (simp add: construct_create_path bag_create_path
        validateCDKPropWhenIsInstanceProps_def Let_def)

text \<open>Credentials with a password only, and credentials with a managed secret.\<close>

theorem credentials_need_secret_witness:
  \<open>construct example_env ''db'' (config_with None ''mysql5.7'' password_bag) =
      (Inl (Error ''Only credentials managed by SecretManager are supported for the "cdk.instance.credentials".''), [])
   \<and> validateCDKPropWhenIsInstanceProps (config_with None ''mysql5.7'' secret_bag) = Inr secret_bag\<close>
  using
    credentials_need_secret
      [where props = "config_with None ''mysql5.7'' password_bag" and b = password_bag
         and env = example_env and ident = "''db''"]
    credentials_need_secret
      [where props = "config_with None ''mysql5.7'' secret_bag" and b = secret_bag
         and env = example_env and ident = "''db''"]
  by (simp add: config_with_def password_bag_def secret_bag_def empty_instance_props_def)

section \<open>The message for an unsupported engine\<close>

text \<open>
  C5. For a non-empty engine string that \<open>getEngine\<close> does not resolve, the constructor
  throws the error of \<open>getEngine\<close>. Its message names four engines as supported:
  \<^verbatim>\<open>mysql5.6\<close>, \<^verbatim>\<open>mysql5.7\<close>, \<^verbatim>\<open>postgresql10.14\<close> and \<^verbatim>\<open>postgresql11.13\<close>. Two of them,
  \<^verbatim>\<open>mysql5.6\<close> and \<^verbatim>\<open>postgresql10.14\<close>, are rejected by \<open>getEngine\<close> with this very
  message, as any other unresolved string is. The theorem evaluates the constructor at
  the engine string \<^verbatim>\<open>"mysql5.6"\<close>.
\<close>

theorem unsupported_engine_message:
  \<open>construct env ident
      \<lparr> vpc = None, databaseName = ''db1'', engine = ''mysql5.6'', cdk = None \<rparr> =
     (Inl (Error ''The specified "engine" is not supported for sst.RDS. Only mysql5.6, mysql5.7, postgresql10.14, and postgresql11.13 engines are currently supported.''), [])
   \<and> getEngine ''mysql5.6'' = Inl (Error ''The specified "engine" is not supported for sst.RDS. Only mysql5.6, mysql5.7, postgresql10.14, and postgresql11.13 engines are currently supported.'')
   \<and> getEngine ''postgresql10.14'' = Inl (Error ''The specified "engine" is not supported for sst.RDS. Only mysql5.6, mysql5.7, postgresql10.14, and postgresql11.13 engines are currently supported.'')\<close>
  by (simp add: construct_defs)

text \<open>An empty engine string does not reach the error: \<^verbatim>\<open>engine || "mysql5.7"\<close> turns it
  into \<^verbatim>\<open>"mysql5.7"\<close> before \<open>getEngine\<close> is called.\<close>

lemma empty_engine_is_mysql:
  "\<exists>w p. construct env ident
          \<lparr> vpc = Some v, databaseName = d, engine = [], cdk = None \<rparr> =
          (Inr w, [Child_DatabaseInstance ''DB'' p]) \<and> p_engine p = mysql VER_5_7"
  by (simp add: construct_defs)

section \<open>Defaults for the network, the subnets and the instance type\<close>

text \<open>
  C6. When a construction on the create-new path succeeds and the configuration has no
  top-level \<^verbatim>\<open>vpc\<close>, exactly one network was created, with zero NAT gateways, and the
  one database instance was created in that network with the subnet selection of type
  \<^verbatim>\<open>PRIVATE_ISOLATED\<close>. When the configuration has a top-level \<^verbatim>\<open>vpc\<close>, no network was
  created and the instance was given that \<^verbatim>\<open>vpc\<close>.
\<close>

theorem default_network_isolated:
  assumes "\<not> imports_existing props" and "construct env ident props = (Inr w, children)"
  shows "(vpc props = None \<longrightarrow>
            networks children = [\<lparr> natGateways = Some 0 \<rparr>] \<and>
            (\<exists>p. database_instances children = [p] \<and>
                 p_vpc p = Vpc ''vpc'' \<lparr> natGateways = Some 0 \<rparr> \<and>
                 p_vpcSubnets p = Some \<lparr> subnetType = Some PRIVATE_ISOLATED, subnetGroupName = None \<rparr>))
       \<and> (\<forall>v. vpc props = Some v \<longrightarrow>
            networks children = [] \<and>
            (\<exists>p. database_instances children = [p] \<and> p_vpc p = v))"
  using create_path_success[OF assms]
  by (auto simp: isolated_private_def)

text \<open>The configuration \<open>config_db1\<close>, and the network of \<^verbatim>\<open>sst.config.ts\<close> given at the top
  level.\<close>

theorem default_network_isolated_witness:
  "networks (snd (construct example_env ''db'' config_db1)) = [\<lparr> natGateways = Some 0 \<rparr>]
   \<and> (\<exists>p. database_instances (snd (construct example_env ''db'' config_db1)) = [p] \<and>
          p_vpc p = Vpc ''vpc'' \<lparr> natGateways = Some 0 \<rparr> \<and>
          p_vpcSubnets p = Some \<lparr> subnetType = Some PRIVATE_ISOLATED, subnetGroupName = None \<rparr>)
   \<and> networks (snd (construct example_env ''db''
          (config_with (Some site_vpc) ''mysql5.7'' empty_instance_props))) = []
   \<and> (\<exists>p. database_instances (snd (construct example_env ''db''
          (config_with (Some site_vpc) ''mysql5.7'' empty_instance_props))) = [p] \<and>
          p_vpc p = site_vpc)"
proof -
  let ?a = "construct example_env ''db'' config_db1"
  let ?b = "construct example_env ''db'' (config_with (Some site_vpc) ''mysql5.7'' empty_instance_props)"
  have a: "?a = (Inr (projr (fst ?a)), snd ?a)"
    by (simp add: construct_defs config_db1_def)
  have b: "?b = (Inr (projr (fst ?b)), snd ?b)"
    by (simp add: construct_defs config_with_def)
  show ?thesis
    using default_network_isolated[OF config_db1_create_path(1) a]
      default_network_isolated[OF config_with_create_path(1) b]
    by (simp add: config_db1_def config_with_def)
qed

text \<open>
  C4. \<open>getVpcSubnets\<close> returns the \<^verbatim>\<open>vpcSubnets\<close> of the override bag only when the
  bag itself has a truthy \<^verbatim>\<open>vpc\<close>, and the validation has rejected every such bag
  before. The theorem evaluates the constructor at a configuration with a top-level
  \<^verbatim>\<open>vpc\<close> and a bag whose \<^verbatim>\<open>vpcSubnets\<close> selects the subnet type \<^verbatim>\<open>PUBLIC\<close>: the instance is
  created with the subnet selection of type \<^verbatim>\<open>PRIVATE_ISOLATED\<close>, not with the
  selection of the bag.
\<close>

theorem supplied_subnets_replaced:
  "\<exists>w. construct env ident
          \<lparr> vpc = Some (Vpc ''net'' \<lparr> natGateways = Some 1 \<rparr>),
            databaseName = ''db1'', engine = ''mysql5.7'',
            cdk = Some \<lparr> cdk_id = None,
                         cdk_instance = Some (InstanceProps
                           (empty_instance_props
                              \<lparr> ip_vpcSubnets :=
                                  Some \<lparr> subnetType = Some PUBLIC, subnetGroupName = None \<rparr> \<rparr>)),
                         cdk_secret = None \<rparr> \<rparr> =
        (Inr w,
         [Child_DatabaseInstance ''DB''
            \<lparr> p_instanceIdentifier = Some (logicalPrefixedName env (node_id_of env ident)),
              p_engine = mysql VER_5_7,
              p_vpc = Vpc ''net'' \<lparr> natGateways = Some 1 \<rparr>,
              p_vpcSubnets = Some \<lparr> subnetType = Some PRIVATE_ISOLATED, subnetGroupName = None \<rparr>,
              p_instanceType = Some (InstanceType_of BURSTABLE3 SMALL),
              p_databaseName = ''db1'',
              p_credentials = None,
              p_rest = [] \<rparr>])"
  by (simp add: construct_defs)

text \<open>
  C7. When a construction on the create-new path succeeds, the one database instance was
  created with the instance type \<^verbatim>\<open>InstanceType.of(BURSTABLE3, SMALL)\<close> if the override bag
  has no \<^verbatim>\<open>instanceType\<close> (or there is no bag), and with the \<^verbatim>\<open>instanceType\<close> of the bag
  otherwise.
\<close>

theorem default_instance_type:
  assumes "\<not> imports_existing props" and "construct env ident props = (Inr w, children)"
  shows "\<exists>p. database_instances children = [p] \<and>
           (ip_instanceType (instance_props_of props) = None \<longrightarrow>
              p_instanceType p = Some (InstanceType_of BURSTABLE3 SMALL)) \<and>
           (\<forall>t. ip_instanceType (instance_props_of props) = Some t \<longrightarrow> p_instanceType p = Some t)"
  using create_path_success[OF assms]
  by (auto simp: getInstanceType_def split: option.splits)

text \<open>The configuration \<open>config_db1\<close>, and a bag that asks for a large instance.\<close>

theorem default_instance_type_witness:
  "(\<exists>p. database_instances (snd (construct example_env ''db'' config_db1)) = [p] \<and>
        p_instanceType p = Some (InstanceType_of BURSTABLE3 SMALL))
   \<and> (\<exists>p. database_instances (snd (construct example_env ''db''
          (config_with None ''postgresql11.13'' large_bag))) = [p] \<and>
        p_instanceType p = Some (InstanceType_of STANDARD5 LARGE))"
proof -
  let ?a = "construct example_env ''db'' config_db1"
  let ?b = "construct example_env ''db'' (config_with None ''postgresql11.13'' large_bag)"
  have a: "?a = (Inr (projr (fst ?a)), snd ?a)"
    by (simp add: construct_defs config_db1_def)
  have b: "?b = (Inr (projr (fst ?b)), snd ?b)"
    by (simp add: construct_defs config_with_def large_bag_def)
  show ?thesis
    using default_instance_type[OF config_db1_create_path(1) a]
      default_instance_type[OF config_with_create_path(1) b]
    by (simp add: config_db1_create_path config_with_create_path
          empty_instance_props_def large_bag_def)
qed

section \<open>The configuration of the end-to-end property\<close>

text \<open>
  C9. For \<^verbatim>\<open>{databaseName: "db1", engine: "mysql5.7"}\<close>, in any environment and under any
  id, the construction succeeds. It creates a network and then one database instance whose
  subnet selection is of type \<^verbatim>\<open>PRIVATE_ISOLATED\<close> and whose \<^verbatim>\<open>instanceIdentifier\<close> is
  \<^verbatim>\<open>logicalPrefixedName\<close> applied to the node id of the wrapper.
\<close>

theorem db1_end_to_end:
  "\<exists>w. construct env ident
          \<lparr> vpc = None, databaseName = ''db1'', engine = ''mysql5.7'', cdk = None \<rparr> =
        (Inr w,
         [Child_Vpc ''vpc'' \<lparr> natGateways = Some 0 \<rparr>,
          Child_DatabaseInstance ''DB''
            \<lparr> p_instanceIdentifier = Some (logicalPrefixedName env (node_id_of env ident)),
              p_engine = mysql VER_5_7,
              p_vpc = Vpc ''vpc'' \<lparr> natGateways = Some 0 \<rparr>,
              p_vpcSubnets = Some \<lparr> subnetType = Some PRIVATE_ISOLATED, subnetGroupName = None \<rparr>,
              p_instanceType = Some (InstanceType_of BURSTABLE3 SMALL),
              p_databaseName = ''db1'',
              p_credentials = None,
              p_rest = [] \<rparr>])
      \<and> this_node_id w = node_id_of env ident"
  by (simp add: construct_defs)

text \<open>In \<open>example_env\<close>, under the id \<^verbatim>\<open>"db"\<close>.\<close>

theorem db1_end_to_end_witness:
  "\<exists>w. construct example_env ''db''
          \<lparr> vpc = None, databaseName = ''db1'', engine = ''mysql5.7'', cdk = None \<rparr> =
        (Inr w,
         [Child_Vpc ''vpc'' \<lparr> natGateways = Some 0 \<rparr>,
          Child_DatabaseInstance ''DB''
            \<lparr> p_instanceIdentifier = Some ''dev-sst-t3-example-db'',
              p_engine = mysql VER_5_7,
              p_vpc = Vpc ''vpc'' \<lparr> natGateways = Some 0 \<rparr>,
              p_vpcSubnets = Some \<lparr> subnetType = Some PRIVATE_ISOLATED, subnetGroupName = None \<rparr>,
              p_instanceType = Some (InstanceType_of BURSTABLE3 SMALL),
              p_databaseName = ''db1'',
              p_credentials = None,
              p_rest = [] \<rparr>])
      \<and> this_node_id w = ''db''"
  using db1_end_to_end[of example_env "''db''"] by (simp add: example_env_def)

section \<open>The binding descriptor\<close>

text \<open>
  C10. \<open>getFunctionBinding\<close> is a function of the wrapper alone. Let the provisioning
  library attach a secret to every instance it creates from properties whose credentials
  are absent or carry a secret. Then for every wrapper that the constructor returns,
  \<open>getFunctionBinding\<close> returns a descriptor and no error: the client package is
  \<^verbatim>\<open>"rds"\<close>; the variables \<^verbatim>\<open>instanceArn\<close>, \<^verbatim>\<open>secretArn\<close> and \<^verbatim>\<open>databaseName\<close> are plain and
  hold the values of the accessors of these names; \<^verbatim>\<open>"rds-data:*"\<close> is granted on the
  instance ARN, and the two actions of the secrets manager on the full ARN of the secret
  when that is defined and not empty, and on the ARN of the secret followed by \<^verbatim>\<open>*\<close>
  otherwise.
\<close>

theorem binding_descriptor:
  assumes "\<forall>scope i p.
             (case p_credentials p of None \<Rightarrow> True | Some c \<Rightarrow> credentials_secret c \<noteq> None) \<longrightarrow>
             instance_secret (new_DatabaseInstance env scope i p) \<noteq> None"
    and "construct env ident props = (Inr w, children)"
  shows "\<exists>s. this_secret w = Some s \<and>
           get_secretArn w = Inr (secretArn s) \<and>
           getFunctionBinding w =
             Inr \<lparr> clientPackage = ''rds'',
                   variables =
                     [(''instanceArn'', \<lparr> var_type = ''plain'', var_value = get_instanceArn w \<rparr>),
                      (''secretArn'', \<lparr> var_type = ''plain'', var_value = secretArn s \<rparr>),
                      (''databaseName'', \<lparr> var_type = ''plain'', var_value = get_databaseName w \<rparr>)],
                   permissions =
                     [(''rds-data:*'', [get_instanceArn w]),
                      (''secretsmanager:GetSecretValue'',
                         [case secretFullArn s of
                            None \<Rightarrow> secretArn s @ ''*''
                          | Some f \<Rightarrow> if f \<noteq> [] then f else secretArn s @ ''*'']),
                      (''secretsmanager:DescribeSecret'',
                         [case secretFullArn s of
                            None \<Rightarrow> secretArn s @ ''*''
                          | Some f \<Rightarrow> if f \<noteq> [] then f else secretArn s @ ''*''])] \<rparr>"
proof -
  have "\<exists>s. this_secret w = Some s"
  proof (cases "imports_existing props")
    case True
    then obtain c h where c: "cdk props = Some c" "cdk_instance c = Some (IDatabaseInstance h)"
      by (auto simp: imports_existing_def split: option.splits elim: isCDKConstruct.elims)
    from assms(2) show ?thesis
      unfolding construct_import_path[OF c]
      by (auto simp: validateCDKPropWhenIsConstruct_def c split: option.splits)
  next
    case False
    from create_path_success[OF False assms(2)] obtain p where
      v: "validateCDKPropWhenIsInstanceProps props = Inr (instance_props_of props)"
      and p: "p_credentials p = ip_credentials (instance_props_of props)"
      and i: "this_cdk_instance w =
                new_DatabaseInstance env (node_id_of env (super_id ident props)) ''DB'' p"
      and s: "this_secret w = instance_secret (this_cdk_instance w)"
      by blast
    from v p have
      "case p_credentials p of None \<Rightarrow> True | Some c \<Rightarrow> credentials_secret c \<noteq> None"
      by (simp add: validate_ok_iff)
    with assms(1) have "instance_secret (new_DatabaseInstance env
        (node_id_of env (super_id ident props)) ''DB'' p) \<noteq> None"
      by blast
    with i s show ?thesis by auto
  qed
  then obtain s where s: "this_secret w = Some s" ..
  then show ?thesis
    by (simp add: getFunctionBinding_def get_secretArn_def secret_resource_def)
qed

text \<open>A created instance, whose secret has a full ARN, and an imported instance, whose
  secret has none.\<close>

theorem binding_descriptor_witness:
  "getFunctionBinding (projr (fst (construct example_env ''db'' config_db1))) =
     Inr \<lparr> clientPackage = ''rds'',
           variables =
             [(''instanceArn'', \<lparr> var_type = ''plain'', var_value = ''arn:aws:rds:us-east-1:1:db:db/DB'' \<rparr>),
              (''secretArn'', \<lparr> var_type = ''plain'',
                 var_value = ''arn:aws:secretsmanager:us-east-1:1:secret:gen-AbCdEf'' \<rparr>),
              (''databaseName'', \<lparr> var_type = ''plain'', var_value = ''db1'' \<rparr>)],
           permissions =
             [(''rds-data:*'', [''arn:aws:rds:us-east-1:1:db:db/DB'']),
              (''secretsmanager:GetSecretValue'',
                 [''arn:aws:secretsmanager:us-east-1:1:secret:gen-AbCdEf'']),
              (''secretsmanager:DescribeSecret'',
                 [''arn:aws:secretsmanager:us-east-1:1:secret:gen-AbCdEf''])] \<rparr>
   \<and> getFunctionBinding
       (projr (fst (construct example_env ''db'' (config_import (Some example_secret))))) =
     Inr \<lparr> clientPackage = ''rds'',
           variables =
             [(''instanceArn'', \<lparr> var_type = ''plain'',
                 var_value = ''arn:aws:rds:us-east-1:123456789012:db:my-instance'' \<rparr>),
              (''secretArn'', \<lparr> var_type = ''plain'',
                 var_value = ''arn:aws:secretsmanager:us-east-1:123456789012:secret:my-secret'' \<rparr>),
              (''databaseName'', \<lparr> var_type = ''plain'', var_value = ''db1'' \<rparr>)],
           permissions =
             [(''rds-data:*'', [''arn:aws:rds:us-east-1:123456789012:db:my-instance'']),
              (''secretsmanager:GetSecretValue'',
                 [''arn:aws:secretsmanager:us-east-1:123456789012:secret:my-secret*'']),
              (''secretsmanager:DescribeSecret'',
                 [''arn:aws:secretsmanager:us-east-1:123456789012:secret:my-secret*''])] \<rparr>"
proof -
  let ?a = "construct example_env ''db'' config_db1"
  let ?b = "construct example_env ''db'' (config_import (Some example_secret))"
  have e: "\<forall>scope i p.
      (case p_credentials p of None \<Rightarrow> True | Some c \<Rightarrow> credentials_secret c \<noteq> None) \<longrightarrow>
      instance_secret (new_DatabaseInstance example_env scope i p) \<noteq> None"
    by (simp add: example_env_def split: option.splits)
  have a: "?a = (Inr (projr (fst ?a)), snd ?a)"
    by (simp add: construct_defs config_db1_def)
  have b: "?b = (Inr (projr (fst ?b)), snd ?b)"
    by (simp add: construct_defs config_import_def)
  have wa: "projr (fst ?a) =
      \<lparr> this_id = ''db'', this_node_id = ''db'',
        this_cdk_instance =
          \<lparr> instanceArn = ''arn:aws:rds:us-east-1:1:db:db/DB'',
            instanceIdentifier = ''dev-sst-t3-example-db'',
            instanceEndpoint_hostname = ''db.internal'',
            instance_secret =
              Some \<lparr> secretArn = ''arn:aws:secretsmanager:us-east-1:1:secret:gen-AbCdEf'',
                     secretFullArn = Some ''arn:aws:secretsmanager:us-east-1:1:secret:gen-AbCdEf'' \<rparr> \<rparr>,
        this_props = config_db1,
        this_secret =
          Some \<lparr> secretArn = ''arn:aws:secretsmanager:us-east-1:1:secret:gen-AbCdEf'',
                 secretFullArn = Some ''arn:aws:secretsmanager:us-east-1:1:secret:gen-AbCdEf'' \<rparr> \<rparr>"
    by (simp add: construct_defs config_db1_def example_env_def)
  have wb: "projr (fst ?b) =
      \<lparr> this_id = ''db'', this_node_id = ''db'',
        this_cdk_instance = example_instance,
        this_props = config_import (Some example_secret),
        this_secret = Some example_secret \<rparr>"
    by (simp add: construct_defs config_import_def example_env_def)
  from binding_descriptor[OF e a] have
    "getFunctionBinding (projr (fst ?a)) =
       Inr \<lparr> clientPackage = ''rds'',
             variables =
               [(''instanceArn'', \<lparr> var_type = ''plain'', var_value = ''arn:aws:rds:us-east-1:1:db:db/DB'' \<rparr>),
                (''secretArn'', \<lparr> var_type = ''plain'',
                   var_value = ''arn:aws:secretsmanager:us-east-1:1:secret:gen-AbCdEf'' \<rparr>),
                (''databaseName'', \<lparr> var_type = ''plain'', var_value = ''db1'' \<rparr>)],
             permissions =
               [(''rds-data:*'', [''arn:aws:rds:us-east-1:1:db:db/DB'']),
                (''secretsmanager:GetSecretValue'',
                   [''arn:aws:secretsmanager:us-east-1:1:secret:gen-AbCdEf'']),
                (''secretsmanager:DescribeSecret'',
                   [''arn:aws:secretsmanager:us-east-1:1:secret:gen-AbCdEf''])] \<rparr>"
    unfolding wa
    by (auto simp: get_instanceArn_def get_databaseName_def config_db1_def)
  moreover from binding_descriptor[OF e b] have
    "getFunctionBinding (projr (fst ?b)) =
     Inr \<lparr> clientPackage = ''rds'',
           variables =
             [(''instanceArn'', \<lparr> var_type = ''plain'',
                 var_value = ''arn:aws:rds:us-east-1:123456789012:db:my-instance'' \<rparr>),
              (''secretArn'', \<lparr> var_type = ''plain'',
                 var_value = ''arn:aws:secretsmanager:us-east-1:123456789012:secret:my-secret'' \<rparr>),
              (''databaseName'', \<lparr> var_type = ''plain'', var_value = ''db1'' \<rparr>)],
           permissions =
             [(''rds-data:*'', [''arn:aws:rds:us-east-1:123456789012:db:my-instance'']),
              (''secretsmanager:GetSecretValue'',
                 [''arn:aws:secretsmanager:us-east-1:123456789012:secret:my-secret*'']),
              (''secretsmanager:DescribeSecret'',
                 [''arn:aws:secretsmanager:us-east-1:123456789012:secret:my-secret*''])] \<rparr>"
    unfolding wb
    by (auto simp: get_instanceArn_def get_databaseName_def config_import_def
          example_instance_def example_secret_def)
  ultimately show ?thesis by simp
qed

end
